theory Spec2Isabelle
  imports Main "HOL-Library.Sublist"
begin

section \<open>Speech-to-speech translator: the worker, the shell and their environment\<close>

text \<open>
  The program is \<^verbatim>\<open>main.py\<close>: a worker thread (\<^verbatim>\<open>SpeechRecognitionThread\<close>) and a
  window (\<^verbatim>\<open>TranslationApp\<close>) whose slots run on the event thread. The microphone, the
  three remote services, the temporary directory and the user are outside the program:
  they are parameters of the model, and every answer they can give (a value or a raised
  exception) is a case of it.
\<close>

subsection \<open>Exceptions\<close>

text \<open>
  The three classes of \<^verbatim>\<open>speech_recognition\<close> that \<^verbatim>\<open>run\<close> names, and any other
  subclass of \<^verbatim>\<open>Exception\<close>. An exception carries the text that \<^verbatim>\<open>str(e)\<close> gives.
\<close>

datatype exc_class = WaitTimeoutError | UnknownValueError | RequestError | OtherException

datatype exc = Exc exc_class string

fun cls :: "exc \<Rightarrow> exc_class" where
  "cls (Exc c m) = c"

fun str :: "exc \<Rightarrow> string" where
  "str (Exc c m) = m"

subsection \<open>The Recognition Worker: \<^verbatim>\<open>SpeechRecognitionThread.run\<close>\<close>

type_synonym audio = "nat list"

text \<open>
  What the environment answers during one run: entering \<^verbatim>\<open>with sr.Microphone()\<close>
  (\<open>None\<close>: the device opened), \<^verbatim>\<open>recognizer.listen\<close>, and
  \<^verbatim>\<open>recognizer.recognize_google\<close> for an audio and a language code.
\<close>

record rec_env =
  mic_open :: "exc option"
  listen :: "exc + audio"
  recognize_google :: "audio \<Rightarrow> string \<Rightarrow> exc + string"

text \<open>The two signals of the thread: \<^verbatim>\<open>finished = pyqtSignal(str)\<close>, \<^verbatim>\<open>error = pyqtSignal(str)\<close>.\<close>

datatype signal = Finished string | Error string

text \<open>
  What one run leaves behind: the signals emitted, in order; the lines printed; the
  language codes sent to the recognition service; the exception that left \<^verbatim>\<open>run\<close>,
  if one did.
\<close>

record run_result =
  emitted :: "signal list"
  printed :: "string list"
  asked :: "string list"
  propagated :: "exc option"

text \<open>The chain of \<^verbatim>\<open>except\<close> clauses of \<^verbatim>\<open>run\<close> (lines 30 to 37), in the order written.\<close>

definition except_clauses :: "exc \<Rightarrow> string" where
  "except_clauses e =
     (if cls e = WaitTimeoutError then ''Listening timed out. Please try again.''
      else if cls e = UnknownValueError then ''Speech recognition could not understand audio''
      else if cls e = RequestError
        then ''Could not request results from speech recognition service; '' @ str e
      else ''An unexpected error occurred: '' @ str e)"

text \<open>
  \<^verbatim>\<open>run\<close>. The \<^verbatim>\<open>try\<close> starts inside the \<^verbatim>\<open>with\<close> block: an exception raised while
  the microphone is opened (line 24) is not covered by any \<^verbatim>\<open>except\<close> clause and leaves
  \<^verbatim>\<open>run\<close>; the \<^verbatim>\<open>print\<close> of line 25 has not happened then. Creating the recognizer,
  emitting a signal and releasing the microphone are taken not to raise.
\<close>

definition run :: "rec_env \<Rightarrow> string \<Rightarrow> run_result" where
  "run env language =
     (case mic_open env of
        Some e \<Rightarrow> \<lparr>emitted = [], printed = [], asked = [], propagated = Some e\<rparr>
      | None \<Rightarrow>
         (case listen env of
            Inl e \<Rightarrow>
              \<lparr>emitted = [Error (except_clauses e)], printed = [''Say something!''],
               asked = [], propagated = None\<rparr>
          | Inr audio \<Rightarrow>
             (case recognize_google env audio language of
                Inl e \<Rightarrow>
                  \<lparr>emitted = [Error (except_clauses e)], printed = [''Say something!''],
                   asked = [language], propagated = None\<rparr>
              | Inr text \<Rightarrow>
                  \<lparr>emitted = [Finished text], printed = [''Say something!''],
                   asked = [language], propagated = None\<rparr>)))"

subsection \<open>The Application Shell: \<^verbatim>\<open>TranslationApp\<close>\<close>

text \<open>The dictionary \<^verbatim>\<open>languages\<close> of \<^verbatim>\<open>__init__\<close>, in insertion order: the items of both dropdowns.\<close>

definition languages :: "(string \<times> string) list" where
  "languages =
     [(''English'', ''en''), (''Spanish'', ''es''), (''French'', ''fr''), (''German'', ''de''),
      (''Italian'', ''it''), (''Portuguese'', ''pt''), (''Russian'', ''ru''), (''Japanese'', ''ja''),
      (''Korean'', ''ko''), (''Chinese'', ''zh-CN''), (''Marathi'', ''mr''), (''Hindi'', ''hi''),
      (''Kannada'', ''kn'')]"

text \<open>\<^verbatim>\<open>QComboBox.currentData()\<close> of a dropdown whose current index is \<open>i\<close> (always below 13 here).\<close>

definition currentData :: "nat \<Rightarrow> string" where
  "currentData i = snd (languages ! i)"

text \<open>
  What is recorded of the run of the whole application, in order: a worker started with
  a language code, a request to the recognition service, a signal reaching its slot, an
  exception leaving a worker, the request to the translation service (source, target,
  text), its answer, and the request to the synthesis service (text, language).
\<close>

datatype action =
    Start string
  | Recognize string
  | Emit signal
  | Died exc
  | Translate string string string
  | Translated string
  | Synthesize string string

text \<open>
  The fields of the window that the slots read and write, followed by the world around
  it: the workers started and not yet ended (by language code), the modal notices shown
  (\<^verbatim>\<open>QMessageBox.warning\<close>: title and text), the lines printed, the files that exist, the
  record of actions, the exceptions no handler caught, and whether the window has closed.
  The player is the one \<^verbatim>\<open>QMediaPlayer\<close> of the window: setting its source replaces the
  previous one. Only the application creates and removes files here.
\<close>

record app =
  source_lang :: nat
  target_lang :: nat
  input_text :: string
  output_text :: string
  speak_enabled :: bool
  speak_text :: string
  speech_thread :: "string option"
  temp_audio_file :: "string option"
  player_source :: "string option"
  player_playing :: bool
  workers :: "string list"
  notices :: "(string \<times> string) list"
  stdout :: "string list"
  files :: "string set"
  history :: "action list"
  uncaught :: "exc list"
  window_closed :: bool

text \<open>The window after \<^verbatim>\<open>__init__\<close>, in a file system holding \<open>fs\<close>.\<close>

definition initial :: "string set \<Rightarrow> app" where
  "initial fs =
     \<lparr>source_lang = 0, target_lang = 1, input_text = [], output_text = [],
      speak_enabled = True, speak_text = ''Speak'', speech_thread = None,
      temp_audio_file = None, player_source = None, player_playing = False,
      workers = [], notices = [], stdout = [], files = fs, history = [], uncaught = [],
      window_closed = False\<rparr>"

text \<open>
  What the environment answers to the two synchronous steps: the translation service
  (\<^verbatim>\<open>GoogleTranslator(source, target).translate(text)\<close>), the constructor \<^verbatim>\<open>gTTS(text, lang)\<close>,
  the temporary directory and the candidate names the standard library draws from, and
  \<^verbatim>\<open>tts.save(path)\<close>.
\<close>

record services =
  translator :: "string \<Rightarrow> string \<Rightarrow> string \<Rightarrow> exc + string"
  gTTS :: "string \<Rightarrow> string \<Rightarrow> exc option"
  tmp_dir :: string
  tmp_names :: "string list"
  tts_save :: "string \<Rightarrow> string \<Rightarrow> string \<Rightarrow> exc option"

text \<open>
  \<^verbatim>\<open>tempfile.NamedTemporaryFile(delete=False, suffix=...)\<close>: the standard library builds
  directory, prefix \<^verbatim>\<open>tmp\<close>, a drawn name and the suffix, creates the file exclusively,
  and draws again when that path exists; it raises when no drawn name is free.
\<close>

fun NamedTemporaryFile :: "string set \<Rightarrow> string \<Rightarrow> string list \<Rightarrow> string \<Rightarrow> exc + string" where
  "NamedTemporaryFile fs dir [] sfx =
     Inl (Exc OtherException ''No usable temporary file name found'')"
| "NamedTemporaryFile fs dir (n # ns) sfx =
     (if dir @ ''tmp'' @ n @ sfx \<in> fs then NamedTemporaryFile fs dir ns sfx
      else Inr (dir @ ''tmp'' @ n @ sfx))"

text \<open>\<^verbatim>\<open>QMessageBox.warning(self, title, text)\<close>.\<close>

definition warning :: "string \<Rightarrow> string \<Rightarrow> app \<Rightarrow> app" where
  "warning title message a = a\<lparr>notices := notices a @ [(title, message)]\<rparr>"

text \<open>\<^verbatim>\<open>start_speech_recognition\<close> (lines 128 to 135).\<close>

definition start_speech_recognition :: "app \<Rightarrow> app" where
  "start_speech_recognition a =
     (let source_lang = currentData (source_lang a) in
      a\<lparr>speech_thread := Some source_lang,
        workers := workers a @ [source_lang],
        history := history a @ [Start source_lang],
        speak_enabled := False,
        speak_text := ''Listening...''\<rparr>)"

text \<open>
  \<^verbatim>\<open>generate_and_play_audio\<close> (lines 161 to 172). The file exists from the moment
  \<^verbatim>\<open>NamedTemporaryFile\<close> returns (\<^verbatim>\<open>delete=False\<close>); its path is stored in
  \<^verbatim>\<open>self.temp_audio_file\<close> only after \<^verbatim>\<open>tts.save\<close> has returned.
\<close>

definition audio_error :: "exc \<Rightarrow> app \<Rightarrow> app" where
  "audio_error e a =
     warning ''Audio Generation Error'' (''An error occurred while generating audio: '' @ str e) a"

definition generate_and_play_audio :: "services \<Rightarrow> string \<Rightarrow> string \<Rightarrow> app \<Rightarrow> app" where
  "generate_and_play_audio sv text lang a =
     (let a1 = a\<lparr>history := history a @ [Synthesize text lang]\<rparr> in
      case gTTS sv text lang of
        Some e \<Rightarrow> audio_error e a1
      | None \<Rightarrow>
         (case NamedTemporaryFile (files a1) (tmp_dir sv) (tmp_names sv) ''.mp3'' of
            Inl e \<Rightarrow> audio_error e a1
          | Inr name \<Rightarrow>
             (let a2 = a1\<lparr>files := insert name (files a1)\<rparr> in
              case tts_save sv text lang name of
                Some e \<Rightarrow> audio_error e a2
              | None \<Rightarrow>
                  a2\<lparr>temp_audio_file := Some name,
                     player_source := Some name,
                     player_playing := True\<rparr>)))"

text \<open>\<^verbatim>\<open>translate_text\<close> (lines 148 to 159).\<close>

definition translate_text :: "services \<Rightarrow> string \<Rightarrow> app \<Rightarrow> app" where
  "translate_text sv source_text a =
     (let source_lang = currentData (source_lang a);
          target_lang = currentData (target_lang a);
          a1 = a\<lparr>history := history a @ [Translate source_lang target_lang source_text]\<rparr>
      in case translator sv source_lang target_lang source_text of
           Inl e \<Rightarrow>
             warning ''Translation Error'' (''An error occurred during translation: '' @ str e) a1
         | Inr translated_text \<Rightarrow>
             generate_and_play_audio sv translated_text target_lang
               (a1\<lparr>output_text := translated_text,
                   history := history a1 @ [Translated translated_text]\<rparr>))"

text \<open>\<^verbatim>\<open>on_speech_recognized\<close> (lines 137 to 141) and \<^verbatim>\<open>on_speech_error\<close> (lines 143 to 146).\<close>

definition on_speech_recognized :: "services \<Rightarrow> string \<Rightarrow> app \<Rightarrow> app" where
  "on_speech_recognized sv text a =
     translate_text sv text (a\<lparr>input_text := text, speak_enabled := True, speak_text := ''Speak''\<rparr>)"

definition on_speech_error :: "string \<Rightarrow> app \<Rightarrow> app" where
  "on_speech_error error_message a =
     warning ''Speech Recognition Error'' error_message
       (a\<lparr>speak_enabled := True, speak_text := ''Speak''\<rparr>)"

text \<open>
  \<^verbatim>\<open>os.unlink(path)\<close>: the environment may refuse (\<open>Some e\<close>); a path that does not
  exist raises.
\<close>

definition os_unlink :: "exc option \<Rightarrow> string set \<Rightarrow> string \<Rightarrow> exc + string set" where
  "os_unlink refusal fs path =
     (case refusal of
        Some e \<Rightarrow> Inl e
      | None \<Rightarrow>
          if path \<in> fs then Inr (fs - {path})
          else Inl (Exc OtherException (''No such file or directory: '' @ path)))"

text \<open>
  \<^verbatim>\<open>closeEvent\<close> (lines 174 to 180). \<^verbatim>\<open>if self.temp_audio_file:\<close> is false for
  \<^verbatim>\<open>None\<close> and for the empty string.
\<close>

definition closeEvent :: "exc option \<Rightarrow> app \<Rightarrow> app" where
  "closeEvent refusal a =
     (let a1 =
        (case temp_audio_file a of
           None \<Rightarrow> a
         | Some path \<Rightarrow>
             if path = [] then a
             else (case os_unlink refusal (files a) path of
                     Inr fs \<Rightarrow> a\<lparr>files := fs\<rparr>
                   | Inl e \<Rightarrow> a\<lparr>stdout := stdout a @ [''Error deleting temporary file: '' @ str e]\<rparr>))
      in a1\<lparr>window_closed := True\<rparr>)"

subsection \<open>The event loop\<close>

text \<open>
  A signal of the worker reaches the slot it is connected to (lines 131 and 132).
\<close>

fun deliver :: "services \<Rightarrow> signal \<Rightarrow> app \<Rightarrow> app" where
  "deliver sv (Finished text) a =
     on_speech_recognized sv text (a\<lparr>history := history a @ [Emit (Finished text)]\<rparr>)"
| "deliver sv (Error message) a =
     on_speech_error message (a\<lparr>history := history a @ [Emit (Error message)]\<rparr>)"

text \<open>
  The end of a worker that was started with \<open>language\<close>: its prints and its request are
  recorded, its signals reach their slots, and an exception that left \<^verbatim>\<open>run\<close> is
  recorded as uncaught (no slot is called for it).
\<close>

definition worker_done :: "rec_env \<Rightarrow> services \<Rightarrow> string \<Rightarrow> app \<Rightarrow> app" where
  "worker_done env sv language a =
     (let r = run env language;
          a1 = a\<lparr>stdout := stdout a @ printed r,
                 history := history a @ map Recognize (asked r)\<rparr>;
          a2 = fold (deliver sv) (emitted r) a1
      in case propagated r of
           None \<Rightarrow> a2
         | Some e \<Rightarrow> a2\<lparr>history := history a2 @ [Died e], uncaught := uncaught a2 @ [e]\<rparr>)"

text \<open>
  What can happen to the window: a click on the button (Qt delivers none while the
  button is disabled), a choice in a dropdown, the end of the oldest running worker in
  some environment, and the closing of the window. Nothing happens after the window
  has closed.
\<close>

datatype event =
    Click
  | SelectSource nat
  | SelectTarget nat
  | WorkerDone rec_env services
  | Close "exc option"

fun step :: "event \<Rightarrow> app \<Rightarrow> app option" where
  "step Click a =
     (if window_closed a \<or> \<not> speak_enabled a then None
      else Some (start_speech_recognition a))"
| "step (SelectSource i) a =
     (if window_closed a \<or> \<not> i < length languages then None
      else Some (a\<lparr>source_lang := i\<rparr>))"
| "step (SelectTarget i) a =
     (if window_closed a \<or> \<not> i < length languages then None
      else Some (a\<lparr>target_lang := i\<rparr>))"
| "step (WorkerDone env sv) a =
     (if window_closed a then None
      else case workers a of
             [] \<Rightarrow> None
           | language # ws \<Rightarrow> Some (worker_done env sv language (a\<lparr>workers := ws\<rparr>)))"
| "step (Close refusal) a =
     (if window_closed a then None else Some (closeEvent refusal a))"

fun exec :: "app \<Rightarrow> event list \<Rightarrow> app option" where
  "exec a [] = Some a"
| "exec a (e # es) = (case step e a of None \<Rightarrow> None | Some a' \<Rightarrow> exec a' es)"

subsection \<open>The guarantees, as properties of the record of actions\<close>

text \<open>
  A capture is awaited when a worker has been started and no signal of a worker has
  reached its slot since.
\<close>

fun after_action :: "bool \<Rightarrow> action \<Rightarrow> bool" where
  "after_action w (Start l) = True"
| "after_action w (Emit s) = False"
| "after_action w x = w"

definition awaiting :: "action list \<Rightarrow> bool" where
  "awaiting h = foldl after_action False h"

text \<open>
  The order of the steps of a cycle. A worker is started only while none is in flight;
  a request to the recognition service, a signal and the death of a worker need a
  worker in flight; the translation request comes right after the \<^verbatim>\<open>finished\<close> signal,
  for the text it carried; the synthesis request comes right after the translation
  service has answered, for the text it answered.
\<close>

datatype phase = Idle | Listening | Recognized string | Translating | TranslatedTo string

fun next_phase :: "phase \<Rightarrow> action \<Rightarrow> phase option" where
  "next_phase p (Start l) = (if p = Listening then None else Some Listening)"
| "next_phase p (Recognize l) = (if p = Listening then Some Listening else None)"
| "next_phase p (Emit (Finished t)) = (if p = Listening then Some (Recognized t) else None)"
| "next_phase p (Emit (Error m)) = (if p = Listening then Some Idle else None)"
| "next_phase p (Died e) = (if p = Listening then Some Idle else None)"
| "next_phase p (Translate s t x) = (if p = Recognized x then Some Translating else None)"
| "next_phase p (Translated y) = (if p = Translating then Some (TranslatedTo y) else None)"
| "next_phase p (Synthesize y l) = (if p = TranslatedTo y then Some Idle else None)"

fun phases :: "phase \<Rightarrow> action list \<Rightarrow> phase option" where
  "phases p [] = Some p"
| "phases p (x # xs) = (case next_phase p x of None \<Rightarrow> None | Some q \<Rightarrow> phases q xs)"

definition ordered :: "action list \<Rightarrow> bool" where
  "ordered h = (phases Idle h \<noteq> None)"


subsection \<open>Invariants of the reachable states\<close>

text \<open>The button is enabled exactly when no capture is awaited, and its label follows.\<close>

definition button_inv :: "app \<Rightarrow> bool" where
  "button_inv a =
     (speak_enabled a = (\<not> awaiting (history a)) \<and>
      speak_text a = (if speak_enabled a then ''Speak'' else ''Listening...''))"

text \<open>
  The record of actions is in order, a worker is running exactly in the phase
  \<open>Listening\<close>, there is at most one, and the button is disabled while it runs.
\<close>

definition order_inv :: "app \<Rightarrow> bool" where
  "order_inv a =
     (case phases Idle (history a) of
        None \<Rightarrow> False
      | Some p \<Rightarrow>
          (p = Listening) = (workers a \<noteq> []) \<and> length (workers a) \<le> 1 \<and>
          (workers a = [] \<or> \<not> speak_enabled a))"

text \<open>While the window is open, the tracked path is not empty and names a file that exists.\<close>

definition tracked_inv :: "app \<Rightarrow> bool" where
  "tracked_inv a =
     (window_closed a \<or>
      (case temp_audio_file a of None \<Rightarrow> True | Some path \<Rightarrow> path \<in> files a \<and> path \<noteq> []))"

subsection \<open>Concrete environments\<close>

text \<open>A machine without an input device: opening the microphone raises.\<close>

definition no_microphone :: rec_env where
  "no_microphone =
     \<lparr>mic_open = Some (Exc OtherException ''No Default Input Device Available''),
      listen = Inr [],
      recognize_google = (\<lambda>audio language. Inr ''hello world'')\<rparr>"

text \<open>A capture that the recognition service transcribes.\<close>

definition hears :: "string \<Rightarrow> rec_env" where
  "hears text =
     \<lparr>mic_open = None, listen = Inr [3, 1, 4, 1, 5],
      recognize_google = (\<lambda>audio language. Inr text)\<rparr>"

text \<open>Nobody starts to speak within the five seconds.\<close>

definition times_out :: rec_env where
  "times_out =
     \<lparr>mic_open = None,
      listen = Inl (Exc WaitTimeoutError ''listening timed out while waiting for phrase to start''),
      recognize_google = (\<lambda>audio language. Inr [])\<rparr>"

text \<open>A capture of silence, for which the recognition service has no transcript.\<close>

definition silence :: rec_env where
  "silence =
     \<lparr>mic_open = None, listen = Inr [0, 0, 0, 0],
      recognize_google = (\<lambda>audio language. Inl (Exc UnknownValueError []))\<rparr>"

text \<open>The same capture of silence while the recognition service cannot be reached.\<close>

definition silence_offline :: rec_env where
  "silence_offline =
     \<lparr>mic_open = None, listen = Inr [0, 0, 0, 0],
      recognize_google =
        (\<lambda>audio language. Inl (Exc RequestError ''recognition connection failed''))\<rparr>"

text \<open>Services that answer, with the given names drawn for the temporary file.\<close>

definition online :: "string list \<Rightarrow> services" where
  "online names =
     \<lparr>translator = (\<lambda>source target text. Inr ''hola mundo''),
      gTTS = (\<lambda>text lang. None),
      tmp_dir = ''/tmp/'',
      tmp_names = names,
      tts_save = (\<lambda>text lang path. None)\<rparr>"

text \<open>The translation service cannot be reached.\<close>

definition translation_down :: services where
  "translation_down =
     \<lparr>translator = (\<lambda>source target text. Inl (Exc OtherException ''Request exception can happen due to an api connection error'')),
      gTTS = (\<lambda>text lang. None),
      tmp_dir = ''/tmp/'',
      tmp_names = [''k3x9''],
      tts_save = (\<lambda>text lang path. None)\<rparr>"

text \<open>The synthesis service cannot be reached when the audio is saved.\<close>

definition synthesis_down :: services where
  "synthesis_down =
     \<lparr>translator = (\<lambda>source target text. Inr ''hola mundo''),
      gTTS = (\<lambda>text lang. None),
      tmp_dir = ''/tmp/'',
      tmp_names = [''k3x9''],
      tts_save = (\<lambda>text lang path. Some (Exc OtherException ''Failed to connect''))\<rparr>"

text \<open>Two cycles that succeed, then the window is closed and the deletion is not refused.\<close>

definition two_cycles :: "event list" where
  "two_cycles =
     [Click, WorkerDone (hears ''hello world'') (online [''k3x9'']),
      Click, WorkerDone (hears ''good night'') (online [''k3x9'', ''p7q2''])]"

definition session :: "event list" where
  "session = two_cycles @ [Close None]"

text \<open>The user picks Spanish as the source and French as the target while the capture is in flight.\<close>

definition change_of_mind_both :: "event list" where
  "change_of_mind_both =
     [Click, SelectSource 1, SelectTarget 2,
      WorkerDone (hears ''hello world'') (online [''k3x9''])]"

section \<open>What each slot changes\<close>

lemma NamedTemporaryFile_fresh:
  "NamedTemporaryFile fs dir ns sfx = Inr path \<Longrightarrow>
     path \<notin> fs \<and> suffix sfx path \<and> path \<noteq> []"
  by (induction ns) (auto simp: suffix_def split: if_splits)

lemma history_generate:
  "history (generate_and_play_audio sv text lang a) = history a @ [Synthesize text lang]"
  by (simp add: generate_and_play_audio_def audio_error_def warning_def Let_def
      split: option.splits sum.splits)

lemma history_translate:
  "history (translate_text sv x a) =
     history a @ Translate (currentData (source_lang a)) (currentData (target_lang a)) x #
       (case translator sv (currentData (source_lang a)) (currentData (target_lang a)) x of
          Inl e \<Rightarrow> []
        | Inr y \<Rightarrow> [Translated y, Synthesize y (currentData (target_lang a))])"
  by (simp add: translate_text_def history_generate warning_def Let_def split: sum.splits)

lemma button_generate:
  "speak_enabled (generate_and_play_audio sv text lang a) = speak_enabled a"
  "speak_text (generate_and_play_audio sv text lang a) = speak_text a"
  "workers (generate_and_play_audio sv text lang a) = workers a"
  "window_closed (generate_and_play_audio sv text lang a) = window_closed a"
  by (simp_all add: generate_and_play_audio_def audio_error_def warning_def Let_def
      split: option.splits sum.splits)

lemma button_translate:
  "speak_enabled (translate_text sv x a) = speak_enabled a"
  "speak_text (translate_text sv x a) = speak_text a"
  "workers (translate_text sv x a) = workers a"
  "window_closed (translate_text sv x a) = window_closed a"
  by (simp_all add: translate_text_def button_generate warning_def Let_def split: sum.splits)

lemma history_deliver:
  "history (deliver sv s a) = history a @ Emit s #
     (case s of
        Error m \<Rightarrow> []
      | Finished x \<Rightarrow>
          Translate (currentData (source_lang a)) (currentData (target_lang a)) x #
          (case translator sv (currentData (source_lang a)) (currentData (target_lang a)) x of
             Inl e \<Rightarrow> []
           | Inr y \<Rightarrow> [Translated y, Synthesize y (currentData (target_lang a))]))"
  by (cases s) (simp_all add: on_speech_recognized_def on_speech_error_def warning_def
      history_translate split: sum.splits)

lemma button_deliver:
  "speak_enabled (deliver sv s a)"
  "speak_text (deliver sv s a) = ''Speak''"
  "workers (deliver sv s a) = workers a"
  "window_closed (deliver sv s a) = window_closed a"
  by (cases s; simp add: on_speech_recognized_def on_speech_error_def warning_def
      button_translate)+

lemma tracked_generate:
  assumes "tracked_inv a"
  shows "tracked_inv (generate_and_play_audio sv text lang a)"
  using assms
  by (auto simp: tracked_inv_def generate_and_play_audio_def audio_error_def warning_def Let_def
      dest: NamedTemporaryFile_fresh split: option.splits sum.splits)

lemma tracked_translate:
  assumes "tracked_inv a"
  shows "tracked_inv (translate_text sv x a)"
proof (cases "translator sv (currentData (source_lang a)) (currentData (target_lang a)) x")
  case (Inl e)
  with assms show ?thesis
    by (simp add: translate_text_def warning_def Let_def tracked_inv_def split: option.splits)
next
  case (Inr y)
  have "tracked_inv (a\<lparr>history := history a @
      [Translate (currentData (source_lang a)) (currentData (target_lang a)) x],
      output_text := y,
      history := history a @
        [Translate (currentData (source_lang a)) (currentData (target_lang a)) x] @
        [Translated y]\<rparr>)"
    using assms by (simp add: tracked_inv_def split: option.splits)
  from tracked_generate[OF this] Inr show ?thesis
    by (simp add: translate_text_def Let_def)
qed

lemma tracked_deliver:
  assumes "tracked_inv a"
  shows "tracked_inv (deliver sv s a)"
proof (cases s)
  case (Finished x)
  have "tracked_inv (a\<lparr>history := history a @ [Emit (Finished x)], input_text := x,
      speak_enabled := True, speak_text := ''Speak''\<rparr>)"
    using assms by (simp add: tracked_inv_def split: option.splits)
  from tracked_translate[OF this] Finished show ?thesis
    by (simp add: on_speech_recognized_def)
next
  case (Error m)
  with assms show ?thesis
    by (simp add: on_speech_error_def warning_def tracked_inv_def split: option.splits)
qed

section \<open>The runs of the worker\<close>

lemma run_shape:
  "(\<exists>e. mic_open env = Some e \<and>
        run env l = \<lparr>emitted = [], printed = [], asked = [], propagated = Some e\<rparr>) \<or>
   (\<exists>s. mic_open env = None \<and> emitted (run env l) = [s] \<and> propagated (run env l) = None \<and>
        set (asked (run env l)) \<subseteq> {l})"
  by (simp add: run_def split: option.splits sum.splits)

lemma run_cases:
  obtains (crash) e where "mic_open env = Some e"
      "run env l = \<lparr>emitted = [], printed = [], asked = [], propagated = Some e\<rparr>"
  | (signal) s where "mic_open env = None" "emitted (run env l) = [s]"
      "propagated (run env l) = None" "set (asked (run env l)) \<subseteq> {l}"
  using run_shape[of env l] by blast

section \<open>Invariants along the event loop\<close>

lemma exec_invariant:
  assumes "\<And>e a a'. P a \<Longrightarrow> step e a = Some a' \<Longrightarrow> P a'"
    and "P a" and "exec a es = Some a'"
  shows "P a'"
  using assms(2,3)
proof (induction es arbitrary: a)
  case Nil
  then show ?case by simp
next
  case (Cons e es)
  then obtain b where b: "step e a = Some b" "exec b es = Some a'"
    by (auto split: option.splits)
  from assms(1)[OF Cons.prems(1) b(1)] Cons.IH b(2) show ?case by blast
qed

lemma exec_append:
  "exec a (es @ fs) = (case exec a es of None \<Rightarrow> None | Some b \<Rightarrow> exec b fs)"
  by (induction es arbitrary: a) (simp_all split: option.splits)

lemma awaiting_snoc: "awaiting (h @ [x]) = after_action (awaiting h) x"
  by (simp add: awaiting_def)

lemma awaiting_append: "awaiting (h @ k) = foldl after_action (awaiting h) k"
  by (simp add: awaiting_def)

lemma foldl_after_Recognize: "foldl after_action w (map Recognize ls) = w"
  by (induction ls) simp_all

lemma step_button:
  assumes "button_inv a" and "step e a = Some a'"
  shows "button_inv a'"
proof (cases e)
  case Click
  with assms show ?thesis
    by (auto simp: button_inv_def start_speech_recognition_def Let_def awaiting_snoc
        split: if_splits)
next
  case (SelectSource i)
  with assms show ?thesis by (auto simp: button_inv_def split: if_splits)
next
  case (SelectTarget i)
  with assms show ?thesis by (auto simp: button_inv_def split: if_splits)
next
  case (WorkerDone env sv)
  with assms obtain l ws where a': "a' = worker_done env sv l (a\<lparr>workers := ws\<rparr>)"
    by (auto split: if_splits list.splits)
  show ?thesis
  proof (cases rule: run_cases[of env l])
    case (crash e)
    with assms(1) a' show ?thesis
      by (simp add: worker_done_def button_inv_def awaiting_snoc)
  next
    case (signal s)
    with assms(1) a' show ?thesis
      by (simp add: worker_done_def button_inv_def Let_def button_deliver history_deliver
          awaiting_append foldl_after_Recognize split: signal.splits sum.splits)
  qed
next
  case (Close r)
  with assms show ?thesis
    by (auto simp: button_inv_def closeEvent_def Let_def
        split: if_splits option.splits sum.splits)
qed

lemma phases_append:
  "phases p (xs @ ys) = (case phases p xs of None \<Rightarrow> None | Some q \<Rightarrow> phases q ys)"
  by (induction xs arbitrary: p) (simp_all split: option.splits)

lemma phases_asked:
  "set ls \<subseteq> {l} \<Longrightarrow> phases Listening (map Recognize ls) = Some Listening"
  by (induction ls) simp_all

lemma phases_deliver:
  "\<exists>q. phases Listening (Emit s #
     (case s of
        Error m \<Rightarrow> []
      | Finished x \<Rightarrow>
          Translate src tgt x #
          (case tr x of Inl e \<Rightarrow> [] | Inr y \<Rightarrow> [Translated y, Synthesize y tgt]))) = Some q \<and>
     q \<noteq> Listening"
  by (cases s) (simp_all split: sum.splits)

lemma step_order:
  assumes "order_inv a" and "step e a = Some a'"
  shows "order_inv a'"
proof (cases e)
  case Click
  with assms show ?thesis
    by (auto simp: order_inv_def start_speech_recognition_def Let_def phases_append
        split: if_splits option.splits)
next
  case (SelectSource i)
  with assms show ?thesis by (auto simp: order_inv_def split: if_splits option.splits)
next
  case (SelectTarget i)
  with assms show ?thesis by (auto simp: order_inv_def split: if_splits option.splits)
next
  case (WorkerDone env sv)
  with assms obtain l ws where w: "workers a = l # ws"
    and a': "a' = worker_done env sv l (a\<lparr>workers := ws\<rparr>)"
    by (auto split: if_splits list.splits)
  from assms(1) w have ws: "ws = []" and p: "phases Idle (history a) = Some Listening"
    by (auto simp: order_inv_def split: option.splits)
  show ?thesis
  proof (cases rule: run_cases[of env l])
    case (crash e)
    with a' ws p show ?thesis
      by (simp add: worker_done_def order_inv_def phases_append)
  next
    case (signal s)
    define a1 where "a1 = a\<lparr>workers := ws, stdout := stdout a @ printed (run env l),
      history := history a @ map Recognize (asked (run env l))\<rparr>"
    define k where "k = Emit s #
       (case s of
          Error m \<Rightarrow> []
        | Finished x \<Rightarrow>
            Translate (currentData (source_lang a1)) (currentData (target_lang a1)) x #
            (case translator sv (currentData (source_lang a1)) (currentData (target_lang a1)) x of
               Inl e \<Rightarrow> []
             | Inr y \<Rightarrow> [Translated y, Synthesize y (currentData (target_lang a1))]))"
    have a1: "history a1 = history a @ map Recognize (asked (run env l))" "workers a1 = []"
      by (simp_all add: a1_def ws)
    have hk: "history (deliver sv s a1) = history a1 @ k"
      unfolding k_def by (rule history_deliver)
    from phases_deliver[of s "currentData (source_lang a1)" "currentData (target_lang a1)"
        "translator sv (currentData (source_lang a1)) (currentData (target_lang a1))"]
    obtain q where q: "phases Listening k = Some q" "q \<noteq> Listening"
      unfolding k_def by blast
    from signal a' have "a' = deliver sv s a1"
      by (simp add: worker_done_def Let_def a1_def)
    with p q a1 hk phases_asked[OF signal(4)] show ?thesis
      by (simp add: order_inv_def button_deliver phases_append)
  qed
next
  case (Close r)
  with assms show ?thesis
    by (auto simp: order_inv_def closeEvent_def Let_def
        split: if_splits option.splits sum.splits)
qed

lemma step_tracked:
  assumes "tracked_inv a" and "step e a = Some a'"
  shows "tracked_inv a'"
proof (cases e)
  case Click
  with assms show ?thesis
    by (auto simp: tracked_inv_def start_speech_recognition_def Let_def
        split: if_splits option.splits)
next
  case (SelectSource i)
  with assms show ?thesis by (auto simp: tracked_inv_def split: if_splits option.splits)
next
  case (SelectTarget i)
  with assms show ?thesis by (auto simp: tracked_inv_def split: if_splits option.splits)
next
  case (WorkerDone env sv)
  with assms obtain l ws where a': "a' = worker_done env sv l (a\<lparr>workers := ws\<rparr>)"
    by (auto split: if_splits list.splits)
  show ?thesis
  proof (cases rule: run_cases[of env l])
    case (crash e)
    with assms(1) a' show ?thesis
      by (simp add: worker_done_def tracked_inv_def split: option.splits)
  next
    case (signal s)
    have "tracked_inv (a\<lparr>workers := ws, stdout := stdout a @ printed (run env l),
        history := history a @ map Recognize (asked (run env l))\<rparr>)"
      using assms(1) by (simp add: tracked_inv_def split: option.splits)
    from tracked_deliver[OF this] signal a' show ?thesis
      by (simp add: worker_done_def Let_def)
  qed
next
  case (Close r)
  with assms show ?thesis
    by (auto simp: tracked_inv_def closeEvent_def Let_def split: if_splits)
qed

lemma reachable_button: "exec (initial fs) es = Some a \<Longrightarrow> button_inv a"
  by (rule exec_invariant[of button_inv, OF step_button])
    (simp_all add: button_inv_def initial_def awaiting_def)

lemma reachable_order: "exec (initial fs) es = Some a \<Longrightarrow> order_inv a"
  by (rule exec_invariant[of order_inv, OF step_order])
    (simp_all add: order_inv_def initial_def)

lemma reachable_tracked: "exec (initial fs) es = Some a \<Longrightarrow> tracked_inv a"
  by (rule exec_invariant[of tracked_inv, OF step_tracked])
    (simp_all add: tracked_inv_def initial_def)

lemmas slot_defs =
  worker_done_def on_speech_recognized_def on_speech_error_def translate_text_def
  generate_and_play_audio_def audio_error_def warning_def start_speech_recognition_def
  closeEvent_def os_unlink_def run_def currentData_def languages_def initial_def Let_def

lemmas sample_defs =
  hears_def times_out_def silence_def silence_offline_def online_def translation_down_def synthesis_down_def
  two_cycles_def session_def change_of_mind_both_def

section \<open>The Recognition Worker\<close>

lemma run_opened:
  "mic_open env = None \<Longrightarrow>
     length (emitted (run env language)) = 1 \<and> propagated (run env language) = None"
  by (simp add: run_def split: sum.splits)

text \<open>
  C1. Every run of the worker should end with exactly one notification and no exception
  leaving it. On a machine without an input device the run emits no signal at all, and
  the exception raised while the microphone is opened leaves \<^verbatim>\<open>run\<close>.
\<close>

theorem run_no_microphone:
  "run no_microphone ''en'' =
     \<lparr>emitted = [], printed = [], asked = [],
      propagated = Some (Exc OtherException ''No Default Input Device Available'')\<rparr>"
  by (simp add: run_def no_microphone_def)

lemma no_microphone_button_stays_disabled:
  "map_option (\<lambda>a. (speak_enabled a, speak_text a, workers a, notices a))
     (exec (initial {}) [Click, WorkerDone no_microphone (online [''k3x9''])]) =
   Some (False, ''Listening...'', [], [])"
  by (simp add: slot_defs sample_defs no_microphone_def)




section \<open>The slots of the shell\<close>

text \<open>
  C3. Whatever exception the capture or the recognition request raises (timeout,
  unintelligible audio, service error or any other), the end of the worker shows one
  notice "Speech Recognition Error" with the text of the matching \<^verbatim>\<open>except\<close> clause,
  leaves both text panes as they were, and enables the button with the label "Speak".
\<close>

theorem recognition_failure_notice:
  assumes "mic_open env = None"
    and "listen env = Inl e \<or>
         (\<exists>audio. listen env = Inr audio \<and> recognize_google env audio language = Inl e)"
    and "workers a = language # ws" and "\<not> window_closed a"
  shows "\<exists>a'. step (WorkerDone env sv) a = Some a' \<and>
           notices a' = notices a @ [(''Speech Recognition Error'', except_clauses e)] \<and>
           input_text a' = input_text a \<and> output_text a' = output_text a \<and>
           speak_enabled a' \<and> speak_text a' = ''Speak''"
  using assms by (auto simp: Let_def worker_done_def run_def on_speech_error_def warning_def)

theorem recognition_failure_notice_witness:
  "\<exists>a'. step (WorkerDone times_out (online [''k3x9''])) (start_speech_recognition (initial {})) =
           Some a' \<and>
         notices a' = [(''Speech Recognition Error'', ''Listening timed out. Please try again.'')] \<and>
         input_text a' = [] \<and> output_text a' = [] \<and>
         speak_enabled a' \<and> speak_text a' = ''Speak''"
  using recognition_failure_notice[of times_out
      "Exc WaitTimeoutError ''listening timed out while waiting for phrase to start''"
      "''en''" "start_speech_recognition (initial {})" "[]" "online [''k3x9'']"]
  by (simp add: slot_defs sample_defs except_clauses_def)

text \<open>
  C4. When the worker delivers a recognized text and the translation service raises,
  the recognized-text pane holds that text, the translated-text pane is as it was, one
  notice "Translation Error" is shown, and the button is enabled with the label "Speak".
\<close>

theorem translation_failure_partial:
  assumes "mic_open env = None" and "listen env = Inr audio"
    and "recognize_google env audio language = Inr text"
    and "workers a = language # ws" and "\<not> window_closed a"
    and "translator sv (currentData (source_lang a)) (currentData (target_lang a)) text = Inl e"
  shows "\<exists>a'. step (WorkerDone env sv) a = Some a' \<and>
           input_text a' = text \<and> output_text a' = output_text a \<and>
           notices a' = notices a @
             [(''Translation Error'', ''An error occurred during translation: '' @ str e)] \<and>
           speak_enabled a' \<and> speak_text a' = ''Speak''"
  using assms
  by (simp add: Let_def worker_done_def run_def on_speech_recognized_def translate_text_def
      warning_def)

theorem translation_failure_partial_witness:
  "\<exists>a'. step (WorkerDone (hears ''hello world'') translation_down)
           (start_speech_recognition (initial {})) = Some a' \<and>
         input_text a' = ''hello world'' \<and> output_text a' = [] \<and>
         notices a' =
           [(''Translation Error'',
             ''An error occurred during translation: Request exception can happen due to an api connection error'')] \<and>
         speak_enabled a' \<and> speak_text a' = ''Speak''"
  using translation_failure_partial[of "hears ''hello world''" "[3, 1, 4, 1, 5]" "''en''"
      "''hello world''" "start_speech_recognition (initial {})" "[]" translation_down
      "Exc OtherException ''Request exception can happen due to an api connection error''"]
  by (simp add: slot_defs sample_defs)

text \<open>
  C10. When the translation service has answered and the synthesis step raises (in the
  constructor \<^verbatim>\<open>gTTS\<close>, while the temporary file is created, or in \<^verbatim>\<open>tts.save\<close>: all
  three come before the new path is stored), the translated-text pane holds the
  translation, exactly one notice "Audio Generation Error" is shown, and the tracked
  path and the playback source are those of before.
\<close>

theorem synthesis_failure_partial:
  assumes "mic_open env = None" and "listen env = Inr audio"
    and "recognize_google env audio language = Inr text"
    and "workers a = language # ws" and "\<not> window_closed a"
    and "translator sv (currentData (source_lang a)) (currentData (target_lang a)) text =
           Inr translated"
    and "gTTS sv translated (currentData (target_lang a)) = Some e \<or>
         gTTS sv translated (currentData (target_lang a)) = None \<and>
         (NamedTemporaryFile (files a) (tmp_dir sv) (tmp_names sv) ''.mp3'' = Inl e \<or>
          (\<exists>path. NamedTemporaryFile (files a) (tmp_dir sv) (tmp_names sv) ''.mp3'' = Inr path \<and>
             tts_save sv translated (currentData (target_lang a)) path = Some e))"
  shows "\<exists>a'. step (WorkerDone env sv) a = Some a' \<and>
           output_text a' = translated \<and> input_text a' = text \<and>
           notices a' = notices a @
             [(''Audio Generation Error'', ''An error occurred while generating audio: '' @ str e)] \<and>
           temp_audio_file a' = temp_audio_file a \<and>
           player_source a' = player_source a \<and>
           speak_enabled a' \<and> speak_text a' = ''Speak''"
  using assms
  by (auto simp: Let_def worker_done_def run_def on_speech_recognized_def translate_text_def
      generate_and_play_audio_def audio_error_def warning_def)

theorem synthesis_failure_partial_witness:
  "\<exists>a'. step (WorkerDone (hears ''hello world'') synthesis_down)
           (start_speech_recognition (initial {})) = Some a' \<and>
         output_text a' = ''hola mundo'' \<and> input_text a' = ''hello world'' \<and>
         notices a' =
           [(''Audio Generation Error'', ''An error occurred while generating audio: Failed to connect'')] \<and>
         temp_audio_file a' = None \<and> player_source a' = None \<and>
         speak_enabled a' \<and> speak_text a' = ''Speak''"
  using synthesis_failure_partial[of "hears ''hello world''" "[3, 1, 4, 1, 5]" "''en''"
      "''hello world''" "start_speech_recognition (initial {})" "[]" synthesis_down
      "''hola mundo''" "Exc OtherException ''Failed to connect''"]
  by (simp add: slot_defs sample_defs)

section \<open>The event loop\<close>

lemma ordered_rejects:
  "\<not> ordered [Start ''en'', Start ''en'']"
  "\<not> ordered [Translate ''en'' ''es'' ''hello'']"
  "\<not> ordered [Start ''en'', Emit (Finished ''hello''), Synthesize ''hola'' ''es'']"
  by (simp_all add: ordered_def)

lemma currentData_distinct:
  assumes "i < length languages" and "j < length languages" and "i \<noteq> j"
  shows "currentData i \<noteq> currentData j"
proof -
  have d: "distinct (map snd languages)" by (simp add: languages_def)
  have "currentData i = map snd languages ! i" and "currentData j = map snd languages ! j"
    using assms by (simp_all add: currentData_def)
  moreover have "(map snd languages ! i = map snd languages ! j) = (i = j)"
    using assms by (intro nth_eq_iff_index_eq[OF d]) simp_all
  ultimately show ?thesis using assms(3) by simp
qed

text \<open>
  C2. In every state the application can reach, the button is disabled exactly when a
  capture has been triggered and no signal of the worker (recognized text or error) has
  reached its slot since; whenever it is enabled its label is "Speak".
\<close>

theorem trigger_disabled_while_awaiting:
  assumes "exec (initial fs) es = Some a"
  shows "speak_enabled a = (\<not> awaiting (history a)) \<and>
         speak_text a = (if speak_enabled a then ''Speak'' else ''Listening...'')"
  using reachable_button[OF assms] by (simp add: button_inv_def)

theorem trigger_disabled_while_awaiting_witness:
  "\<exists>a b. exec (initial {}) two_cycles = Some a \<and> speak_enabled a \<and> speak_text a = ''Speak'' \<and>
         exec (initial {}) (two_cycles @ [Click]) = Some b \<and> \<not> speak_enabled b \<and>
         speak_text b = ''Listening...''"
proof -
  obtain a where a: "exec (initial {}) two_cycles = Some a" "\<not> awaiting (history a)"
    by (simp add: slot_defs sample_defs awaiting_def)
  obtain b where b: "exec (initial {}) (two_cycles @ [Click]) = Some b" "awaiting (history b)"
    by (simp add: slot_defs sample_defs awaiting_def)
  from trigger_disabled_while_awaiting[OF a(1)] a(2)
  have "speak_enabled a \<and> speak_text a = ''Speak''" by simp
  moreover from trigger_disabled_while_awaiting[OF b(1)] b(2)
  have "\<not> speak_enabled b \<and> speak_text b = ''Listening...''" by simp
  ultimately show ?thesis using a(1) b(1) by blast
qed

text \<open>
  C5. In every state the application can reach, the record of actions is in order (the
  translation request directly follows the \<^verbatim>\<open>finished\<close> signal and carries its text,
  the synthesis request directly follows the answer of the translation service and
  carries its text, a worker is started only while none is in flight), and at most one
  worker is running.
\<close>

theorem steps_in_order:
  assumes "exec (initial fs) es = Some a"
  shows "ordered (history a) \<and> length (workers a) \<le> 1"
  using reachable_order[OF assms]
  by (simp add: order_inv_def ordered_def split: option.splits)

theorem steps_in_order_witness:
  "\<exists>a. exec (initial {}) (two_cycles @ [Click]) = Some a \<and> workers a = [''en''] \<and>
       ordered (history a) \<and> length (workers a) \<le> 1"
proof -
  obtain a where a: "exec (initial {}) (two_cycles @ [Click]) = Some a" "workers a = [''en'']"
    by (simp add: slot_defs sample_defs)
  from steps_in_order[OF a(1)] a show ?thesis by blast
qed

text \<open>
  C6. From every state the application can reach, a cycle in which recognition,
  translation and synthesis all succeed adds exactly one file, at a path that did not
  exist and ends in \<^verbatim>\<open>.mp3\<close>; that path differs from the one tracked before, becomes the
  tracked path and the source of the one player, and playback starts.
\<close>

theorem fresh_audio_file:
  assumes "exec (initial fs) es = Some a"
    and "workers a = language # ws" and "\<not> window_closed a"
    and "mic_open env = None" and "listen env = Inr audio"
    and "recognize_google env audio language = Inr text"
    and "translator sv (currentData (source_lang a)) (currentData (target_lang a)) text =
           Inr translated"
    and "gTTS sv translated (currentData (target_lang a)) = None"
    and "NamedTemporaryFile (files a) (tmp_dir sv) (tmp_names sv) ''.mp3'' = Inr path"
    and "tts_save sv translated (currentData (target_lang a)) path = None"
  shows "\<exists>a'. step (WorkerDone env sv) a = Some a' \<and>
           files a' = insert path (files a) \<and> path \<notin> files a \<and> suffix ''.mp3'' path \<and>
           temp_audio_file a' = Some path \<and> temp_audio_file a \<noteq> Some path \<and>
           player_source a' = Some path \<and> player_playing a'"
proof -
  from NamedTemporaryFile_fresh[OF assms(9)]
  have fresh: "path \<notin> files a" "suffix ''.mp3'' path" by simp_all
  from reachable_tracked[OF assms(1)] assms(3) fresh(1)
  have "temp_audio_file a \<noteq> Some path"
    by (auto simp: tracked_inv_def)
  with fresh assms(2-10) show ?thesis
    by (simp add: Let_def worker_done_def run_def on_speech_recognized_def translate_text_def
        generate_and_play_audio_def)
qed

theorem fresh_audio_file_witness:
  "\<exists>a a'. exec (initial {}) [Click, WorkerDone (hears ''hello world'') (online [''k3x9'']), Click] =
            Some a \<and>
          temp_audio_file a = Some ''/tmp/tmpk3x9.mp3'' \<and>
          step (WorkerDone (hears ''good night'') (online [''k3x9'', ''p7q2''])) a = Some a' \<and>
          temp_audio_file a' = Some ''/tmp/tmpp7q2.mp3'' \<and>
          files a' = insert ''/tmp/tmpp7q2.mp3'' (files a) \<and>
          player_source a' = Some ''/tmp/tmpp7q2.mp3''"
proof -
  obtain a where a:
    "exec (initial {}) [Click, WorkerDone (hears ''hello world'') (online [''k3x9'']), Click] = Some a"
    "workers a = [''en'']" "\<not> window_closed a" "source_lang a = 0" "target_lang a = 1"
    "files a = {''/tmp/tmpk3x9.mp3''}" "temp_audio_file a = Some ''/tmp/tmpk3x9.mp3''"
    by (simp add: slot_defs sample_defs)
  have "NamedTemporaryFile (files a) (tmp_dir (online [''k3x9'', ''p7q2'']))
          (tmp_names (online [''k3x9'', ''p7q2''])) ''.mp3'' = Inr ''/tmp/tmpp7q2.mp3''"
    by (simp add: a(6) online_def)
  from fresh_audio_file[OF a(1) a(2) a(3), of "hears ''good night''" "[3, 1, 4, 1, 5]"
      "''good night''" "online [''k3x9'', ''p7q2'']" "''hola mundo''", OF _ _ _ _ _ this]
  obtain a' where "step (WorkerDone (hears ''good night'') (online [''k3x9'', ''p7q2''])) a = Some a'"
    "temp_audio_file a' = Some ''/tmp/tmpp7q2.mp3''"
    "files a' = insert ''/tmp/tmpp7q2.mp3'' (files a)"
    "player_source a' = Some ''/tmp/tmpp7q2.mp3''"
    by (auto simp: hears_def online_def)
  with a(1) a(7) show ?thesis by blast
qed




text \<open>
  C9. The worker is given the source code selected when the button is clicked; the
  translation request is built from the two codes selected when the \<^verbatim>\<open>finished\<close>
  signal arrives. When the user picks another source entry in between, the code sent
  to the recognition service and the source code sent to the translation service differ.
\<close>

theorem languages_read_at_different_times:
  assumes "speak_enabled a" and "\<not> window_closed a" and "workers a = []"
    and "source_lang a < length languages"
    and "i < length languages" and "j < length languages" and "i \<noteq> source_lang a"
    and "mic_open env = None" and "listen env = Inr audio"
    and "recognize_google env audio (currentData (source_lang a)) = Inr text"
  shows "\<exists>a' rest. exec a [Click, SelectSource i, SelectTarget j, WorkerDone env sv] = Some a' \<and>
           history a' = history a @
             [Start (currentData (source_lang a)), Recognize (currentData (source_lang a)),
              Emit (Finished text), Translate (currentData i) (currentData j) text] @ rest \<and>
           currentData i \<noteq> currentData (source_lang a)"
proof -
  from currentData_distinct[OF assms(5) assms(4) assms(7)]
  have "currentData i \<noteq> currentData (source_lang a)" .
  with assms show ?thesis
    by (simp add: Let_def start_speech_recognition_def worker_done_def run_def
        on_speech_recognized_def history_translate)
qed

theorem languages_read_at_different_times_witness:
  "\<exists>a' rest. exec (initial {}) change_of_mind_both = Some a' \<and>
           history a' =
             [Start ''en'', Recognize ''en'', Emit (Finished ''hello world''),
              Translate ''es'' ''fr'' ''hello world''] @ rest"
  using languages_read_at_different_times[of "initial {}" 1 2 "hears ''hello world''"
      "[3, 1, 4, 1, 5]" "''hello world''" "online [''k3x9'']"]
  by (simp add: initial_def languages_def currentData_def hears_def change_of_mind_both_def)

end
